theory Spec2Isabelle
  imports Complex_Main "HOL-Library.Char_ord" "HOL-Library.List_Lexorder"
begin

section \<open>Go values used by the services\<close>

subsection \<open>Strings and \<open>strings.TrimSpace\<close>\<close>

text \<open>
  A Go string is a sequence of bytes, here a \<^typ>\<open>string\<close>. \<open>strings.TrimSpace\<close> of
  the Go standard library removes every leading and every trailing white-space rune, as
  \<open>unicode.IsSpace\<close> defines it: the six ASCII characters tab, line feed, vertical tab,
  form feed, carriage return and space, then U+0085, U+00A0, U+1680, U+2000..U+200A,
  U+2028, U+2029, U+202F, U+205F and U+3000. \<open>spaceRunes\<close> lists the UTF-8 encoding
  of each of them. A byte sequence that is not the shortest encoding of one of these runes
  decodes to a rune that is not white space, so trimming removes exactly these byte
  sequences from both ends.
\<close>

definition spaceRunes :: "string list" where
  "spaceRunes =
     [[CHR 0x09], [CHR 0x0A], [CHR 0x0B], [CHR 0x0C], [CHR 0x0D], [CHR 0x20],
      [CHR 0xC2, CHR 0x85], [CHR 0xC2, CHR 0xA0],
      [CHR 0xE1, CHR 0x9A, CHR 0x80],
      [CHR 0xE2, CHR 0x80, CHR 0x80], [CHR 0xE2, CHR 0x80, CHR 0x81],
      [CHR 0xE2, CHR 0x80, CHR 0x82], [CHR 0xE2, CHR 0x80, CHR 0x83],
      [CHR 0xE2, CHR 0x80, CHR 0x84], [CHR 0xE2, CHR 0x80, CHR 0x85],
      [CHR 0xE2, CHR 0x80, CHR 0x86], [CHR 0xE2, CHR 0x80, CHR 0x87],
      [CHR 0xE2, CHR 0x80, CHR 0x88], [CHR 0xE2, CHR 0x80, CHR 0x89],
      [CHR 0xE2, CHR 0x80, CHR 0x8A],
      [CHR 0xE2, CHR 0x80, CHR 0xA8], [CHR 0xE2, CHR 0x80, CHR 0xA9],
      [CHR 0xE2, CHR 0x80, CHR 0xAF],
      [CHR 0xE2, CHR 0x81, CHR 0x9F],
      [CHR 0xE3, CHR 0x80, CHR 0x80]]"

text \<open>\<open>leadingRune rs s\<close> is the first of the encodings \<open>rs\<close> that \<open>s\<close> starts with.\<close>

definition leadingRune :: "string list \<Rightarrow> string \<Rightarrow> string option" where
  "leadingRune rs s = find (\<lambda>r. r \<noteq> [] \<and> take (length r) s = r) rs"

function trimLeading :: "string list \<Rightarrow> string \<Rightarrow> string" where
  "trimLeading rs s =
     (case leadingRune rs s of
        None \<Rightarrow> s
      | Some r \<Rightarrow> trimLeading rs (drop (length r) s))"
  by pat_completeness auto

termination trimLeading
proof (relation "measure (\<lambda>(rs, s). length s)")
  show "wf (measure (\<lambda>(rs, s). length s))" by simp
next
  fix rs :: "string list" and s r :: string
  assume "leadingRune rs s = Some r"
  then have r: "r \<noteq> []" and t: "take (length r) s = r"
    by (auto simp: leadingRune_def find_Some_iff)
  have "length (take (length r) s) \<le> length s" by simp
  with t have "length r \<le> length s" by simp
  with r have "length s - length r < length s" by (cases r) auto
  then show "((rs, drop (length r) s), (rs, s)) \<in> measure (\<lambda>(rs, s). length s)"
    by simp
qed

declare trimLeading.simps [simp del]

text \<open>
  \<open>TrimSpace\<close> trims the left end, then the right end of what is left (Go:
  \<open>TrimRightFunc(TrimLeftFunc(s, unicode.IsSpace), unicode.IsSpace)\<close>, with a fast
  path for ASCII that gives the same result). The right end is trimmed on the reversed
  string with the reversed encodings.
\<close>

definition TrimSpace :: "string \<Rightarrow> string" where
  "TrimSpace s = rev (trimLeading (map rev spaceRunes) (rev (trimLeading spaceRunes s)))"

subsection \<open>\<open>float64\<close> scores\<close>

text \<open>
  Similarity, distance and the two thresholds are \<open>float64\<close>. The services only compare
  them, so a \<open>float64\<close> is modelled by the number it denotes: every finite one is a
  rational, and there are the two infinities and NaN. \<open>f64_le\<close> is Go's \<open><=\<close> and
  \<open>f64_ge\<close> is Go's \<open>>=\<close> (IEEE 754: every comparison with NaN is false).
\<close>

datatype float64 = NaN | NegInf | Finite rat | PosInf

fun f64_le :: "float64 \<Rightarrow> float64 \<Rightarrow> bool" where
  "f64_le NaN y = False"
| "f64_le x NaN = False"
| "f64_le NegInf y = True"
| "f64_le x PosInf = True"
| "f64_le (Finite a) (Finite b) = (a \<le> b)"
| "f64_le PosInf y = False"
| "f64_le x NegInf = False"

definition f64_ge :: "float64 \<Rightarrow> float64 \<Rightarrow> bool" where
  "f64_ge x y = f64_le y x"

subsection \<open>Errors\<close>

text \<open>
  \<open>ErrParticipantExists\<close> and \<open>ErrParticipantNotFound\<close> are the two sentinel errors of
  the service package, which the handlers compare by identity. \<open>Errorf m\<close> is
  \<open>fmt.Errorf(m)\<close>, \<open>Wrapf m e\<close> is \<open>fmt.Errorf(m + ": %w", e)\<close>. \<open>UniqueViolation\<close>
  is the database's error for a violated primary key or unique index, and
  \<open>External m\<close> is any other error of the database driver, of the recognition client or
  of the liveness checker.
\<close>

datatype error =
    ErrParticipantExists
  | ErrParticipantNotFound
  | Errorf string
  | Wrapf string error
  | UniqueViolation
  | External string

subsection \<open>Domain records\<close>

text \<open>A \<open>time.Time\<close> is an instant counted from Go's zero time, so \<open>IsZero\<close> is \<open>= 0\<close>.\<close>

type_synonym time = nat

type_synonym LifeCertificateStatus = string

abbreviation LifeCertificateStatusValid :: LifeCertificateStatus where
  "LifeCertificateStatusValid \<equiv> ''VALID''"

abbreviation LifeCertificateStatusInvalid :: LifeCertificateStatus where
  "LifeCertificateStatusInvalid \<equiv> ''INVALID''"

abbreviation LifeCertificateStatusReview :: LifeCertificateStatus where
  "LifeCertificateStatusReview \<equiv> ''REVIEW''"

record Participant =
  p_ID :: string
  p_NIK :: string
  p_Name :: string
  p_FRLabel :: string
  p_FRExternalRef :: string
  p_CreatedAt :: time
  p_UpdatedAt :: time

record LifeCertificate =
  lc_ID :: string
  lc_ParticipantID :: string
  lc_SelfiePath :: string
  lc_Status :: LifeCertificateStatus
  lc_Distance :: "float64 option"
  lc_Similarity :: "float64 option"
  lc_VerifiedAt :: time
  lc_Notes :: "string option"

record FRIdentity =
  fi_Label :: string
  fi_ParticipantID :: string
  fi_ExternalRef :: string
  fi_CreatedAt :: time

record Member =
  m_ID :: string
  m_NIK :: string
  m_NomorPeserta :: string
  m_BirthDate :: time
  m_FullName :: string
  m_Address :: string
  m_City :: string
  m_Province :: string
  m_PhoneNumber :: string
  m_Email :: string
  m_CreatedAt :: time
  m_UpdatedAt :: time

subsection \<open>The recognition client and the liveness checker\<close>

text \<open>
  The request and response types of package \<open>frcore\<close>. \<open>frcore.Client\<close> is an
  interface: a service is given an implementation of it (in production the HTTP client),
  here the function from a request to the client's result.
\<close>

record UploadRequest =
  ur_Label :: string
  ur_ExternalRef :: string
  ur_ImageName :: string
  ur_Image :: string

record UploadResponse =
  up_ID :: string
  up_Label :: string
  up_ImagePath :: string
  up_ExternalRef :: string

record RecognizeRequest =
  rq_ImageName :: string
  rq_Image :: string

record RecognizeResponse =
  rr_Label :: string
  rr_Similarity :: float64
  rr_Distance :: "float64 option"

text \<open>
  \<open>liveness.Checker.Evaluate\<close> returns \<open>(passed, reason, err)\<close>. \<open>NoopChecker\<close> is the
  implementation the server wires in.
\<close>

type_synonym Checker = "string \<Rightarrow> bool \<times> string \<times> error option"

definition NoopChecker_Evaluate :: "bool \<Rightarrow> Checker" where
  "NoopChecker_Evaluate Enabled img =
     (if \<not> Enabled then (False, ''liveness_disabled'', None) else (True, ''ok'', None))"


section \<open>The stores and the outside world\<close>

text \<open>
  The three repositories are tables of one PostgreSQL database, reached through gorm. A
  table is the list of its rows in insertion order. Primary keys and unique indexes are
  the ones the gorm tags of the domain types declare; a violated one makes the insert or
  update fail with \<open>UniqueViolation\<close>. Strings are compared byte by byte.

  \<open>calls\<close> records every call that leaves the service: each repository call, each
  evaluation of the liveness checker and each request to the recognition engine.
\<close>

datatype db_op =
    ParticipantCreate | ParticipantGetByID | ParticipantGetByNIK
  | ParticipantList | ParticipantUpdate | ParticipantDelete
  | LifeCertificateCreate | LifeCertificateGetLatestByParticipant
  | LifeCertificateDeleteByParticipant
  | FRIdentityCreate | FRIdentityGetByLabel | FRIdentityDeleteByParticipantID

datatype call =
    DbCall db_op
  | EvaluateCall string
  | RecognizeCall RecognizeRequest
  | UploadFaceCall UploadRequest

record world =
  participants :: "Participant list"
  life_certificate :: "LifeCertificate list"
  fr_identities :: "FRIdentity list"
  members :: "Member list"
  calls :: "call list"

text \<open>
  What one service call takes from its environment: the clock read by the service
  (\<open>time.Now().UTC()\<close>), the clock read later by \<open>frIdentityRepository.Create\<close>, the
  first and the second result of \<open>uuid.NewString()\<close>, and for each repository
  operation the error of the database driver, if it fails for a reason other than a
  violated key (lost connection, a value too long for its column). No service method
  calls the same repository operation twice.
\<close>

record env =
  now :: time
  repo_now :: time
  uuid1 :: string
  uuid2 :: string
  db_error :: "db_op \<Rightarrow> error option"

definition logged :: "call \<Rightarrow> world \<Rightarrow> world" where
  "logged c w = w\<lparr>calls := calls w @ [c]\<rparr>"

subsection \<open>participantRepository\<close>

definition participants_Create :: "env \<Rightarrow> world \<Rightarrow> Participant \<Rightarrow> error option \<times> world" where
  "participants_Create e w p =
     (let w' = logged (DbCall ParticipantCreate) w in
      case db_error e ParticipantCreate of
        Some err \<Rightarrow> (Some (Wrapf ''create participant'' err), w')
      | None \<Rightarrow>
          if list_ex (\<lambda>q. p_ID q = p_ID p \<or> p_NIK q = p_NIK p \<or> p_FRLabel q = p_FRLabel p
                          \<or> p_FRExternalRef q = p_FRExternalRef p) (participants w)
          then (Some (Wrapf ''create participant'' UniqueViolation), w')
          else (None, w'\<lparr>participants := participants w @ [p]\<rparr>))"

definition participants_GetByID ::
  "env \<Rightarrow> world \<Rightarrow> string \<Rightarrow> (error + Participant option) \<times> world" where
  "participants_GetByID e w ident =
     (let w' = logged (DbCall ParticipantGetByID) w in
      case db_error e ParticipantGetByID of
        Some err \<Rightarrow> (Inl (Wrapf ''get participant by id'' err), w')
      | None \<Rightarrow> (Inr (find (\<lambda>p. p_ID p = ident) (participants w)), w'))"

definition participants_GetByNIK ::
  "env \<Rightarrow> world \<Rightarrow> string \<Rightarrow> (error + Participant option) \<times> world" where
  "participants_GetByNIK e w nik =
     (let w' = logged (DbCall ParticipantGetByNIK) w in
      case db_error e ParticipantGetByNIK of
        Some err \<Rightarrow> (Inl (Wrapf ''get participant by nik'' err), w')
      | None \<Rightarrow> (Inr (find (\<lambda>p. p_NIK p = nik) (participants w)), w'))"

text \<open>\<open>ORDER BY created_at desc\<close>; rows with equal \<open>created_at\<close> keep their order.\<close>

definition participants_List :: "env \<Rightarrow> world \<Rightarrow> (error + Participant list) \<times> world" where
  "participants_List e w =
     (let w' = logged (DbCall ParticipantList) w in
      case db_error e ParticipantList of
        Some err \<Rightarrow> (Inl (Wrapf ''list participants'' err), w')
      | None \<Rightarrow> (Inr (rev (sort_key p_CreatedAt (rev (participants w)))), w'))"

definition participants_Update :: "env \<Rightarrow> world \<Rightarrow> Participant \<Rightarrow> error option \<times> world" where
  "participants_Update e w p =
     (let w' = logged (DbCall ParticipantUpdate) w in
      case db_error e ParticipantUpdate of
        Some err \<Rightarrow> (Some (Wrapf ''update participant'' err), w')
      | None \<Rightarrow>
          if list_ex (\<lambda>q. p_ID q = p_ID p) (participants w)
             \<and> list_ex (\<lambda>q. p_ID q \<noteq> p_ID p \<and> p_NIK q = p_NIK p) (participants w)
          then (Some (Wrapf ''update participant'' UniqueViolation), w')
          else (None, w'\<lparr>participants :=
                  map (\<lambda>q. if p_ID q = p_ID p
                            then q\<lparr>p_NIK := p_NIK p, p_Name := p_Name p,
                                   p_UpdatedAt := p_UpdatedAt p\<rparr>
                            else q) (participants w)\<rparr>))"

definition participants_Delete :: "env \<Rightarrow> world \<Rightarrow> string \<Rightarrow> error option \<times> world" where
  "participants_Delete e w ident =
     (let w' = logged (DbCall ParticipantDelete) w in
      case db_error e ParticipantDelete of
        Some err \<Rightarrow> (Some (Wrapf ''delete participant'' err), w')
      | None \<Rightarrow> (None, w'\<lparr>participants := filter (\<lambda>p. p_ID p \<noteq> ident) (participants w)\<rparr>))"

subsection \<open>frIdentityRepository\<close>

text \<open>
  \<open>Create\<close> stamps a zero \<open>CreatedAt\<close> and inserts with \<open>ON CONFLICT DO NOTHING\<close>: a
  row whose label (the primary key) is already there is not inserted and no error is
  returned.
\<close>

definition frIdentities_Create :: "env \<Rightarrow> world \<Rightarrow> FRIdentity \<Rightarrow> error option \<times> world" where
  "frIdentities_Create e w identity =
     (let identity' = (if fi_CreatedAt identity = 0
                       then identity\<lparr>fi_CreatedAt := repo_now e\<rparr> else identity);
          w' = logged (DbCall FRIdentityCreate) w in
      case db_error e FRIdentityCreate of
        Some err \<Rightarrow> (Some (Wrapf ''create fr identity'' err), w')
      | None \<Rightarrow>
          if list_ex (\<lambda>i. fi_Label i = fi_Label identity') (fr_identities w)
          then (None, w')
          else (None, w'\<lparr>fr_identities := fr_identities w @ [identity']\<rparr>))"

definition frIdentities_GetByLabel ::
  "env \<Rightarrow> world \<Rightarrow> string \<Rightarrow> (error + FRIdentity option) \<times> world" where
  "frIdentities_GetByLabel e w label =
     (let w' = logged (DbCall FRIdentityGetByLabel) w in
      case db_error e FRIdentityGetByLabel of
        Some err \<Rightarrow> (Inl (Wrapf ''get fr identity by label'' err), w')
      | None \<Rightarrow> (Inr (find (\<lambda>i. fi_Label i = label) (fr_identities w)), w'))"

definition frIdentities_DeleteByParticipantID ::
  "env \<Rightarrow> world \<Rightarrow> string \<Rightarrow> error option \<times> world" where
  "frIdentities_DeleteByParticipantID e w participantID =
     (let w' = logged (DbCall FRIdentityDeleteByParticipantID) w in
      case db_error e FRIdentityDeleteByParticipantID of
        Some err \<Rightarrow> (Some (Wrapf ''delete fr identity'' err), w')
      | None \<Rightarrow> (None, w'\<lparr>fr_identities :=
                   filter (\<lambda>i. fi_ParticipantID i \<noteq> participantID) (fr_identities w)\<rparr>))"

subsection \<open>lifeCertificateRepository\<close>

definition certificates_Create ::
  "env \<Rightarrow> world \<Rightarrow> LifeCertificate \<Rightarrow> error option \<times> world" where
  "certificates_Create e w record =
     (let w' = logged (DbCall LifeCertificateCreate) w in
      case db_error e LifeCertificateCreate of
        Some err \<Rightarrow> (Some (Wrapf ''create life certificate'' err), w')
      | None \<Rightarrow>
          if list_ex (\<lambda>r. lc_ID r = lc_ID record) (life_certificate w)
          then (Some (Wrapf ''create life certificate'' UniqueViolation), w')
          else (None, w'\<lparr>life_certificate := life_certificate w @ [record]\<rparr>))"

text \<open>
  \<open>GetLatestByParticipant\<close> is \<open>Where(participant_id).Order("verified_at desc").First\<close>;
  gorm's \<open>First\<close> adds the primary key as the last sort column, so the query is
  \<open>ORDER BY verified_at DESC, id LIMIT 1\<close>. \<open>sortsBefore r r'\<close> says that \<open>r\<close> comes no
  later than \<open>r'\<close> in that order.
\<close>

definition sortsBefore :: "LifeCertificate \<Rightarrow> LifeCertificate \<Rightarrow> bool" where
  "sortsBefore r r' =
     (lc_VerifiedAt r' < lc_VerifiedAt r
      \<or> (lc_VerifiedAt r = lc_VerifiedAt r' \<and> lc_ID r \<le> lc_ID r'))"

fun firstRow :: "LifeCertificate list \<Rightarrow> LifeCertificate option" where
  "firstRow [] = None"
| "firstRow (r # rs) =
     (case firstRow rs of
        None \<Rightarrow> Some r
      | Some r' \<Rightarrow> if sortsBefore r r' then Some r else Some r')"

definition certificates_GetLatestByParticipant ::
  "env \<Rightarrow> world \<Rightarrow> string \<Rightarrow> (error + LifeCertificate option) \<times> world" where
  "certificates_GetLatestByParticipant e w participantID =
     (let w' = logged (DbCall LifeCertificateGetLatestByParticipant) w in
      case db_error e LifeCertificateGetLatestByParticipant of
        Some err \<Rightarrow> (Inl (Wrapf ''get latest life certificate'' err), w')
      | None \<Rightarrow>
          (Inr (firstRow (filter (\<lambda>r. lc_ParticipantID r = participantID)
                            (life_certificate w))), w'))"

definition certificates_DeleteByParticipant ::
  "env \<Rightarrow> world \<Rightarrow> string \<Rightarrow> error option \<times> world" where
  "certificates_DeleteByParticipant e w participantID =
     (let w' = logged (DbCall LifeCertificateDeleteByParticipant) w in
      case db_error e LifeCertificateDeleteByParticipant of
        Some err \<Rightarrow> (Some (Wrapf ''delete life certificates'' err), w')
      | None \<Rightarrow> (None, w'\<lparr>life_certificate :=
                   filter (\<lambda>r. lc_ParticipantID r \<noteq> participantID) (life_certificate w)\<rparr>))"


section \<open>VerificationService\<close>

text \<open>
  The service holds the three repositories (the tables of \<^typ>\<open>world\<close>), the
  recognition client, the liveness checker and the two thresholds. The recognition
  engine is remote: \<open>vs_Recognize\<close> gives, for the request of this call, the client's
  result.
\<close>

record VerificationService =
  vs_Recognize :: "RecognizeRequest \<Rightarrow> error + RecognizeResponse"
  vs_livenessChecker :: Checker
  distanceThreshold :: float64
  similarityThreshold :: float64

record VerifyInput =
  vi_ParticipantID :: string
  vi_ImageBytes :: string
  vi_OriginalFilename :: string

record VerifyOutput =
  vo_ParticipantID :: string
  vo_Status :: LifeCertificateStatus
  vo_Distance :: "float64 option"
  vo_Similarity :: "float64 option"
  vo_VerifiedAt :: time

record StatusOutput =
  so_ParticipantID :: string
  so_Status :: LifeCertificateStatus
  so_Distance :: "float64 option"
  so_Similarity :: "float64 option"
  so_VerifiedAt :: "time option"
  so_SelfiePath :: string

text \<open>The two threshold signals of \<open>Verify\<close> (lines 126 to 130).\<close>

definition distanceOk :: "VerificationService \<Rightarrow> RecognizeResponse \<Rightarrow> bool" where
  "distanceOk s recognizeResp =
     (case rr_Distance recognizeResp of
        None \<Rightarrow> False
      | Some d \<Rightarrow> f64_le d (distanceThreshold s))"

definition similarityOk :: "VerificationService \<Rightarrow> RecognizeResponse \<Rightarrow> bool" where
  "similarityOk s recognizeResp =
     f64_ge (rr_Similarity recognizeResp) (similarityThreshold s)"

text \<open>
  The liveness branch of \<open>Verify\<close> (lines 97 to 115): a \<open>REVIEW\<close> record with the
  reason as notes.
\<close>

definition Verify_review ::
  "env \<Rightarrow> world \<Rightarrow> Participant \<Rightarrow> string \<Rightarrow> (error + VerifyOutput) \<times> world" where
  "Verify_review e w participant reason =
     (let notes = reason;
          record = \<lparr>lc_ID = uuid1 e, lc_ParticipantID = p_ID participant,
                    lc_SelfiePath = [], lc_Status = LifeCertificateStatusReview,
                    lc_Distance = None, lc_Similarity = None,
                    lc_VerifiedAt = now e, lc_Notes = Some notes\<rparr> in
      case certificates_Create e w record of
        (Some err, w1) \<Rightarrow> (Inl err, w1)
      | (None, w1) \<Rightarrow>
          (Inr \<lparr>vo_ParticipantID = p_ID participant,
                vo_Status = LifeCertificateStatusReview,
                vo_Distance = None, vo_Similarity = None, vo_VerifiedAt = now e\<rparr>, w1))"

text \<open>
  The identity resolution of \<open>Verify\<close> (lines 132 to 150): the value of \<open>matchLabel\<close>
  and the world after the lookup and the alias insert, whose error is discarded.
\<close>

definition Verify_matchLabel ::
  "VerificationService \<Rightarrow> env \<Rightarrow> world \<Rightarrow> Participant \<Rightarrow> RecognizeResponse
     \<Rightarrow> (error + bool) \<times> world" where
  "Verify_matchLabel s e w participant recognizeResp =
     (let label = TrimSpace (rr_Label recognizeResp) in
      if label \<noteq> [] then
        (case frIdentities_GetByLabel e w label of
           (Inl err, w1) \<Rightarrow> (Inl err, w1)
         | (Inr (Some identity), w1) \<Rightarrow>
             (Inr (fi_ParticipantID identity = p_ID participant), w1)
         | (Inr None, w1) \<Rightarrow>
             if similarityOk s recognizeResp
                \<and> (rr_Distance recognizeResp = None \<or> distanceOk s recognizeResp)
             then (Inr True,
                   snd (frIdentities_Create e w1
                          \<lparr>fi_Label = label, fi_ParticipantID = p_ID participant,
                           fi_ExternalRef = p_FRExternalRef participant,
                           fi_CreatedAt = 0\<rparr>))
             else (Inr False, w1))
      else (Inr False, w))"

text \<open>The status decision and the ledger write of \<open>Verify\<close> (lines 125 to 177).\<close>

definition Verify_decide ::
  "VerificationService \<Rightarrow> env \<Rightarrow> world \<Rightarrow> Participant \<Rightarrow> RecognizeResponse
     \<Rightarrow> (error + VerifyOutput) \<times> world" where
  "Verify_decide s e w participant recognizeResp =
     (case Verify_matchLabel s e w participant recognizeResp of
        (Inl err, w1) \<Rightarrow> (Inl err, w1)
      | (Inr matchLabel, w1) \<Rightarrow>
          (let status =
                 (if matchLabel
                     \<and> (distanceOk s recognizeResp
                        \<or> (\<not> distanceOk s recognizeResp
                           \<and> rr_Distance recognizeResp = None
                           \<and> similarityOk s recognizeResp))
                  then LifeCertificateStatusValid else LifeCertificateStatusInvalid);
               similarity = rr_Similarity recognizeResp;
               record = \<lparr>lc_ID = uuid1 e, lc_ParticipantID = p_ID participant,
                         lc_SelfiePath = [], lc_Status = status,
                         lc_Distance = rr_Distance recognizeResp,
                         lc_Similarity = Some similarity,
                         lc_VerifiedAt = now e, lc_Notes = None\<rparr> in
           case certificates_Create e w1 record of
             (Some err, w2) \<Rightarrow> (Inl err, w2)
           | (None, w2) \<Rightarrow>
               (Inr \<lparr>vo_ParticipantID = p_ID participant, vo_Status = status,
                     vo_Distance = rr_Distance recognizeResp,
                     vo_Similarity = Some similarity, vo_VerifiedAt = now e\<rparr>, w2)))"

definition Verify ::
  "VerificationService \<Rightarrow> env \<Rightarrow> world \<Rightarrow> VerifyInput \<Rightarrow> (error + VerifyOutput) \<times> world" where
  "Verify s e w input =
     (let participantID = TrimSpace (vi_ParticipantID input) in
      if participantID = [] then (Inl (Errorf ''participant_id is required''), w)
      else if length (vi_ImageBytes input) = 0
      then (Inl (Errorf ''image payload is required''), w)
      else
        (case participants_GetByID e w participantID of
           (Inl err, w1) \<Rightarrow> (Inl err, w1)
         | (Inr None, w1) \<Rightarrow> (Inl ErrParticipantNotFound, w1)
         | (Inr (Some participant), w1) \<Rightarrow>
             (let filename = (if vi_OriginalFilename input = [] then ''verification.jpg''
                              else vi_OriginalFilename input);
                  w2 = logged (EvaluateCall (vi_ImageBytes input)) w1 in
              case vs_livenessChecker s (vi_ImageBytes input) of
                (passed, reason, Some err) \<Rightarrow>
                  (Inl (Wrapf ''liveness evaluation failed'' err), w2)
              | (passed, reason, None) \<Rightarrow>
                  if \<not> passed then Verify_review e w2 participant reason
                  else
                    (let req = \<lparr>rq_ImageName = filename, rq_Image = vi_ImageBytes input\<rparr>;
                         w3 = logged (RecognizeCall req) w2 in
                     case vs_Recognize s req of
                       Inl err \<Rightarrow> (Inl err, w3)
                     | Inr recognizeResp \<Rightarrow>
                         Verify_decide s e w3 participant recognizeResp))))"

definition LatestStatus ::
  "env \<Rightarrow> world \<Rightarrow> string \<Rightarrow> (error + StatusOutput) \<times> world" where
  "LatestStatus e w participantID0 =
     (let participantID = TrimSpace participantID0 in
      if participantID = [] then (Inl (Errorf ''participant_id is required''), w)
      else
        (case participants_GetByID e w participantID of
           (Inl err, w1) \<Rightarrow> (Inl err, w1)
         | (Inr None, w1) \<Rightarrow> (Inl ErrParticipantNotFound, w1)
         | (Inr (Some participant), w1) \<Rightarrow>
             (case certificates_GetLatestByParticipant e w1 participantID of
                (Inl err, w2) \<Rightarrow> (Inl err, w2)
              | (Inr None, w2) \<Rightarrow>
                  (Inr \<lparr>so_ParticipantID = participantID, so_Status = [],
                        so_Distance = None, so_Similarity = None,
                        so_VerifiedAt = None, so_SelfiePath = []\<rparr>, w2)
              | (Inr (Some record), w2) \<Rightarrow>
                  (Inr \<lparr>so_ParticipantID = participantID, so_Status = lc_Status record,
                        so_Distance = lc_Distance record,
                        so_Similarity = lc_Similarity record,
                        so_VerifiedAt = Some (lc_VerifiedAt record),
                        so_SelfiePath = lc_SelfiePath record\<rparr>, w2))))"

section \<open>ParticipantService\<close>

record ParticipantService =
  ps_UploadFace :: "UploadRequest \<Rightarrow> error + UploadResponse"

record RegisterInput =
  ri_NIK :: string
  ri_Name :: string
  ri_Image :: string
  ri_ImageName :: string

record RegisterOutput =
  ro_ParticipantID :: string
  ro_FRRef :: string
  ro_FRExternalRef :: string

record UpdateParticipantInput =
  ui_NIK :: string
  ui_Name :: string

text \<open>
  The second half of \<open>Register\<close> (lines 94 to 129): what is persisted once the
  recognition engine has answered the upload.
\<close>

definition Register_persist ::
  "env \<Rightarrow> world \<Rightarrow> RegisterInput \<Rightarrow> string \<Rightarrow> string \<Rightarrow> string \<Rightarrow> UploadResponse
     \<Rightarrow> (error + RegisterOutput) \<times> world" where
  "Register_persist e w input participantID frLabel frExternalRef uploadResp =
     (let frRef0 = up_Label uploadResp;
          frRef1 = (if TrimSpace frRef0 = [] then up_ID uploadResp else frRef0);
          frRef = (if TrimSpace frRef1 = [] then frLabel else frRef1);
          frExternal = (if TrimSpace (up_ExternalRef uploadResp) = [] then frExternalRef
                        else up_ExternalRef uploadResp);
          participant = \<lparr>p_ID = participantID, p_NIK = TrimSpace (ri_NIK input),
                          p_Name = TrimSpace (ri_Name input), p_FRLabel = frRef,
                          p_FRExternalRef = frExternal,
                          p_CreatedAt = now e, p_UpdatedAt = now e\<rparr> in
      case participants_Create e w participant of
        (Some err, w1) \<Rightarrow> (Inl err, w1)
      | (None, w1) \<Rightarrow>
          (case frIdentities_Create e w1
                  \<lparr>fi_Label = frRef, fi_ParticipantID = p_ID participant,
                   fi_ExternalRef = frExternal, fi_CreatedAt = 0\<rparr> of
             (Some err, w2) \<Rightarrow> (Inl err, w2)
           | (None, w2) \<Rightarrow>
               (Inr \<lparr>ro_ParticipantID = p_ID participant,
                     ro_FRRef = p_FRLabel participant,
                     ro_FRExternalRef = p_FRExternalRef participant\<rparr>, w2)))"

definition Register ::
  "ParticipantService \<Rightarrow> env \<Rightarrow> world \<Rightarrow> RegisterInput
     \<Rightarrow> (error + RegisterOutput) \<times> world" where
  "Register s e w input =
     (if TrimSpace (ri_NIK input) = [] then (Inl (Errorf ''nik is required''), w)
      else if TrimSpace (ri_Name input) = [] then (Inl (Errorf ''name is required''), w)
      else if length (ri_Image input) = 0 then (Inl (Errorf ''image is required''), w)
      else
        (case participants_GetByNIK e w (ri_NIK input) of
           (Inl err, w1) \<Rightarrow> (Inl err, w1)
         | (Inr (Some existing), w1) \<Rightarrow> (Inl ErrParticipantExists, w1)
         | (Inr None, w1) \<Rightarrow>
             (let participantID = uuid1 e;
                  imageName = (if TrimSpace (ri_ImageName input) = []
                               then ''registration.jpg'' else ri_ImageName input);
                  frLabel = uuid2 e;
                  frExternalRef = participantID;
                  req = \<lparr>ur_Label = frLabel, ur_ExternalRef = frExternalRef,
                          ur_ImageName = imageName, ur_Image = ri_Image input\<rparr>;
                  w2 = logged (UploadFaceCall req) w1 in
              case ps_UploadFace s req of
                Inl err \<Rightarrow> (Inl err, w2)
              | Inr uploadResp \<Rightarrow>
                  Register_persist e w2 input participantID frLabel frExternalRef
                    uploadResp)))"

definition ParticipantService_List ::
  "env \<Rightarrow> world \<Rightarrow> (error + Participant list) \<times> world" where
  "ParticipantService_List e w = participants_List e w"

definition ParticipantService_Get ::
  "env \<Rightarrow> world \<Rightarrow> string \<Rightarrow> (error + Participant) \<times> world" where
  "ParticipantService_Get e w ident =
     (case participants_GetByID e w ident of
        (Inl err, w1) \<Rightarrow> (Inl err, w1)
      | (Inr None, w1) \<Rightarrow> (Inl ErrParticipantNotFound, w1)
      | (Inr (Some participant), w1) \<Rightarrow> (Inr participant, w1))"

definition ParticipantService_Update ::
  "env \<Rightarrow> world \<Rightarrow> string \<Rightarrow> UpdateParticipantInput \<Rightarrow> (error + Participant) \<times> world" where
  "ParticipantService_Update e w ident input =
     (case participants_GetByID e w ident of
        (Inl err, w1) \<Rightarrow> (Inl err, w1)
      | (Inr None, w1) \<Rightarrow> (Inl ErrParticipantNotFound, w1)
      | (Inr (Some participant), w1) \<Rightarrow>
          (let newNIK0 = TrimSpace (ui_NIK input);
               newName0 = TrimSpace (ui_Name input);
               newNIK = (if newNIK0 = [] then p_NIK participant else newNIK0);
               newName = (if newName0 = [] then p_Name participant else newName0);
               updated = participant\<lparr>p_NIK := newNIK, p_Name := newName,
                                      p_UpdatedAt := now e\<rparr>;
               store = (\<lambda>w2. case participants_Update e w2 updated of
                                (Some err, w3) \<Rightarrow> (Inl err, w3)
                              | (None, w3) \<Rightarrow> (Inr updated, w3)) in
           if newNIK \<noteq> p_NIK participant then
             (case participants_GetByNIK e w1 newNIK of
                (Inl err, w2) \<Rightarrow> (Inl err, w2)
              | (Inr existing, w2) \<Rightarrow>
                  if (case existing of None \<Rightarrow> False
                      | Some x \<Rightarrow> p_ID x \<noteq> p_ID participant)
                  then (Inl ErrParticipantExists, w2)
                  else store w2)
           else store w1))"

definition ParticipantService_Delete ::
  "env \<Rightarrow> world \<Rightarrow> string \<Rightarrow> error option \<times> world" where
  "ParticipantService_Delete e w ident =
     (case participants_GetByID e w ident of
        (Inl err, w1) \<Rightarrow> (Some err, w1)
      | (Inr None, w1) \<Rightarrow> (Some ErrParticipantNotFound, w1)
      | (Inr (Some participant), w1) \<Rightarrow>
          (case certificates_DeleteByParticipant e w1 ident of
             (Some err, w2) \<Rightarrow> (Some err, w2)
           | (None, w2) \<Rightarrow>
               (case frIdentities_DeleteByParticipantID e w2 ident of
                  (Some err, w3) \<Rightarrow> (Some err, w3)
                | (None, w3) \<Rightarrow> participants_Delete e w3 ident)))"


section \<open>The operations of the system\<close>

text \<open>
  The service layer is the whole surface the handlers call: the five methods of
  \<open>ParticipantService\<close>, the two of \<open>VerificationService\<close> and the five of
  \<open>MemberService\<close>. \<open>MemberService\<close> holds nothing but the member repository, so
  each of its methods is some change of the table \<open>members\<close> and of no other table;
  \<open>OpMember f\<close> stands for all of them.
\<close>

datatype operation =
    OpRegister ParticipantService RegisterInput
  | OpList
  | OpGet string
  | OpUpdate string UpdateParticipantInput
  | OpDelete string
  | OpVerify VerificationService VerifyInput
  | OpLatestStatus string
  | OpMember "Member list \<Rightarrow> Member list"

fun exec :: "env \<Rightarrow> operation \<Rightarrow> world \<Rightarrow> world" where
  "exec e (OpRegister s input) w = snd (Register s e w input)"
| "exec e OpList w = snd (ParticipantService_List e w)"
| "exec e (OpGet ident) w = snd (ParticipantService_Get e w ident)"
| "exec e (OpUpdate ident input) w = snd (ParticipantService_Update e w ident input)"
| "exec e (OpDelete ident) w = snd (ParticipantService_Delete e w ident)"
| "exec e (OpVerify s input) w = snd (Verify s e w input)"
| "exec e (OpLatestStatus participantID) w = snd (LatestStatus e w participantID)"
| "exec e (OpMember f) w = w\<lparr>members := f (members w)\<rparr>"

text \<open>A history is a list of requests, each with the environment it ran in.\<close>

fun run :: "(env \<times> operation) list \<Rightarrow> world \<Rightarrow> world" where
  "run [] w = w"
| "run ((e, op) # rest) w = run rest (exec e op w)"

fun deletions :: "(env \<times> operation) list \<Rightarrow> string list" where
  "deletions [] = []"
| "deletions ((e, OpDelete ident) # rest) = ident # deletions rest"
| "deletions ((e, op) # rest) = deletions rest"

section \<open>A sample deployment\<close>

text \<open>
  Two enrolled participants with one label each, the default thresholds 0.6 and 75, and
  an environment in which the database answers every call.
\<close>

definition sample_P1 :: Participant where
  "sample_P1 = \<lparr>p_ID = ''P1'', p_NIK = ''3201'', p_Name = ''Siti'', p_FRLabel = ''L1'',
                 p_FRExternalRef = ''P1'', p_CreatedAt = 1, p_UpdatedAt = 1\<rparr>"

definition sample_P2 :: Participant where
  "sample_P2 = \<lparr>p_ID = ''P2'', p_NIK = ''3202'', p_Name = ''Budi'', p_FRLabel = ''L9'',
                 p_FRExternalRef = ''P2'', p_CreatedAt = 2, p_UpdatedAt = 2\<rparr>"

definition sample_world :: world where
  "sample_world =
     \<lparr>participants = [sample_P1, sample_P2],
      life_certificate = [],
      fr_identities =
        [\<lparr>fi_Label = ''L1'', fi_ParticipantID = ''P1'', fi_ExternalRef = ''P1'',
          fi_CreatedAt = 1\<rparr>,
         \<lparr>fi_Label = ''L9'', fi_ParticipantID = ''P2'', fi_ExternalRef = ''P2'',
          fi_CreatedAt = 2\<rparr>],
      members = [],
      calls = []\<rparr>"

definition empty_world :: world where
  "empty_world = \<lparr>participants = [], life_certificate = [], fr_identities = [],
                   members = [], calls = []\<rparr>"

definition sample_env :: "time \<Rightarrow> string \<Rightarrow> string \<Rightarrow> env" where
  "sample_env t u1 u2 =
     \<lparr>now = t, repo_now = t + 1, uuid1 = u1, uuid2 = u2, db_error = (\<lambda>op. None)\<rparr>"

definition sample_service :: "bool \<Rightarrow> error + RecognizeResponse \<Rightarrow> VerificationService" where
  "sample_service enabled result =
     \<lparr>vs_Recognize = (\<lambda>req. result),
      vs_livenessChecker = NoopChecker_Evaluate enabled,
      distanceThreshold = Finite (6 / 10),
      similarityThreshold = Finite 75\<rparr>"

definition sample_input :: VerifyInput where
  "sample_input = \<lparr>vi_ParticipantID = ''P1'', vi_ImageBytes = ''jpeg'',
                    vi_OriginalFilename = ''selfie.jpg''\<rparr>"

definition sample_request :: RecognizeRequest where
  "sample_request = \<lparr>rq_ImageName = ''selfie.jpg'', rq_Image = ''jpeg''\<rparr>"

text \<open>The same deployment after three attempts, two of them by \<open>P1\<close>.\<close>

definition sample_history :: world where
  "sample_history =
     sample_world\<lparr>life_certificate :=
       [\<lparr>lc_ID = ''a-1'', lc_ParticipantID = ''P1'', lc_SelfiePath = [],
         lc_Status = LifeCertificateStatusInvalid, lc_Distance = Some (Finite (9 / 10)),
         lc_Similarity = Some (Finite (402 / 10)), lc_VerifiedAt = 10, lc_Notes = None\<rparr>,
        \<lparr>lc_ID = ''a-2'', lc_ParticipantID = ''P1'', lc_SelfiePath = [],
         lc_Status = LifeCertificateStatusValid, lc_Distance = Some (Finite (3 / 10)),
         lc_Similarity = Some (Finite (925 / 10)), lc_VerifiedAt = 20, lc_Notes = None\<rparr>,
        \<lparr>lc_ID = ''a-3'', lc_ParticipantID = ''P2'', lc_SelfiePath = [],
         lc_Status = LifeCertificateStatusReview, lc_Distance = None,
         lc_Similarity = None, lc_VerifiedAt = 30,
         lc_Notes = Some ''liveness_disabled''\<rparr>]\<rparr>"

text \<open>
  An environment in which one repository operation fails in the database driver.
\<close>

definition faulty_env :: "time \<Rightarrow> string \<Rightarrow> string \<Rightarrow> db_op \<Rightarrow> env" where
  "faulty_env t u1 u2 op =
     \<lparr>now = t, repo_now = t + 1, uuid1 = u1, uuid2 = u2,
      db_error = (\<lambda>op'. if op' = op then Some (External ''connection lost'') else None)\<rparr>"

text \<open>
  A recognition engine that binds the label and the external reference it is sent, and
  one that answers every upload with a response of its own.
\<close>

definition echo_registrar :: ParticipantService where
  "echo_registrar =
     \<lparr>ps_UploadFace = (\<lambda>req. Inr \<lparr>up_ID = ''enc-1'', up_Label = ur_Label req,
                                      up_ImagePath = ''faces/1.jpg'',
                                      up_ExternalRef = ur_ExternalRef req\<rparr>)\<rparr>"

definition fixed_registrar :: "string \<Rightarrow> string \<Rightarrow> string \<Rightarrow> ParticipantService" where
  "fixed_registrar ident label externalRef =
     \<lparr>ps_UploadFace = (\<lambda>req. Inr \<lparr>up_ID = ident, up_Label = label,
                                      up_ImagePath = ''faces/7.jpg'',
                                      up_ExternalRef = externalRef\<rparr>)\<rparr>"

definition sample_registration :: "string \<Rightarrow> RegisterInput" where
  "sample_registration nik =
     \<lparr>ri_NIK = nik, ri_Name = ''Siti'', ri_Image = ''jpeg'', ri_ImageName = ''ktp.jpg''\<rparr>"


section \<open>Shared facts\<close>

lemma tables_logged [simp]:
  "participants (logged c w) = participants w"
  "life_certificate (logged c w) = life_certificate w"
  "fr_identities (logged c w) = fr_identities w"
  "members (logged c w) = members w"
  "calls (logged c w) = calls w @ [c]"
  by (simp_all add: logged_def)

lemmas TrimSpace_eval = TrimSpace_def trimLeading.simps leadingRune_def spaceRunes_def

lemma TrimSpace_samples:
  "TrimSpace [] = []"
  "TrimSpace ''  '' = []"
  "TrimSpace [CHR 0x20, CHR 0x09, CHR 0xC2, CHR 0xA0] = []"
  "TrimSpace ''P1'' = ''P1''"
  "TrimSpace '' P1 '' = ''P1''"
  "TrimSpace ''P7'' = ''P7''"
  "TrimSpace ''L1'' = ''L1''"
  "TrimSpace ''L2'' = ''L2''"
  "TrimSpace ''L9'' = ''L9''"
  "TrimSpace ''3201'' = ''3201''"
  "TrimSpace '' 3201'' = ''3201''"
  "TrimSpace ''3203'' = ''3203''"
  "TrimSpace ''Siti'' = ''Siti''"
  "TrimSpace ''ktp.jpg'' = ''ktp.jpg''"
  "TrimSpace ''u-1'' = ''u-1''"
  "TrimSpace ''u-2'' = ''u-2''"
  "TrimSpace ''u-3'' = ''u-3''"
  "TrimSpace ''u-4'' = ''u-4''"
  "TrimSpace ''face-7'' = ''face-7''"
  "TrimSpace ''ref-7'' = ''ref-7''"
  "TrimSpace ''enc-1'' = ''enc-1''"
  "TrimSpace ''enc-7'' = ''enc-7''"
  "TrimSpace '' L5'' = ''L5''"
  "TrimSpace ''L5'' = ''L5''"
  "TrimSpace ''P3'' = ''P3''"
  by (simp_all add: TrimSpace_eval)

lemmas sample_defs = sample_P1_def sample_P2_def sample_world_def empty_world_def
  sample_env_def sample_service_def sample_input_def sample_request_def
  echo_registrar_def fixed_registrar_def faulty_env_def sample_registration_def sample_history_def
  NoopChecker_Evaluate_def

lemma Verify_passed:
  fixes input :: VerifyInput
  defines "req \<equiv> \<lparr>rq_ImageName = (if vi_OriginalFilename input = [] then ''verification.jpg''
                                     else vi_OriginalFilename input),
                     rq_Image = vi_ImageBytes input\<rparr>"
  assumes "TrimSpace (vi_ParticipantID input) \<noteq> []"
    and "vi_ImageBytes input \<noteq> []"
    and "db_error e ParticipantGetByID = None"
    and "find (\<lambda>p. p_ID p = TrimSpace (vi_ParticipantID input)) (participants w) = Some participant"
    and "vs_livenessChecker s (vi_ImageBytes input) = (True, reason, None)"
  shows "Verify s e w input =
     (case vs_Recognize s req of
        Inl err \<Rightarrow> (Inl err, w\<lparr>calls := calls w @ [DbCall ParticipantGetByID,
                    EvaluateCall (vi_ImageBytes input), RecognizeCall req]\<rparr>)
      | Inr recognizeResp \<Rightarrow> Verify_decide s e (w\<lparr>calls := calls w @ [DbCall ParticipantGetByID,
                    EvaluateCall (vi_ImageBytes input), RecognizeCall req]\<rparr>) participant recognizeResp)"
  using assms
  by (simp add: Verify_def participants_GetByID_def logged_def Let_def split: sum.splits)

lemma Verify_matchLabel_ledger:
  "life_certificate (snd (Verify_matchLabel s e w participant resp)) = life_certificate w"
  by (simp add: Verify_matchLabel_def frIdentities_GetByLabel_def frIdentities_Create_def Let_def
      split: option.splits)

lemma Verify_decide_recorded:
  assumes "db_error e LifeCertificateCreate = None"
    and "\<not> list_ex (\<lambda>r. lc_ID r = uuid1 e) (life_certificate w)"
    and "Verify_matchLabel s e w participant resp = (Inr matchLabel, w1)"
  shows "Verify_decide s e w participant resp =
     (Inr \<lparr>vo_ParticipantID = p_ID participant,
           vo_Status = (if matchLabel \<and> (distanceOk s resp \<or> (\<not> distanceOk s resp \<and> rr_Distance resp = None \<and> similarityOk s resp))
                    then LifeCertificateStatusValid else LifeCertificateStatusInvalid),
            vo_Distance = rr_Distance resp, vo_Similarity = Some (rr_Similarity resp),
            vo_VerifiedAt = now e\<rparr>,
       w1\<lparr>life_certificate := life_certificate w @
           [\<lparr>lc_ID = uuid1 e, lc_ParticipantID = p_ID participant, lc_SelfiePath = [],
             lc_Status = (if matchLabel \<and> (distanceOk s resp \<or> (\<not> distanceOk s resp \<and> rr_Distance resp = None \<and> similarityOk s resp))
                    then LifeCertificateStatusValid else LifeCertificateStatusInvalid), lc_Distance = rr_Distance resp,
             lc_Similarity = Some (rr_Similarity resp), lc_VerifiedAt = now e,
             lc_Notes = None\<rparr>],
          calls := calls w1 @ [DbCall LifeCertificateCreate]\<rparr>)"
proof -
  have "life_certificate w1 = life_certificate w"
    using Verify_matchLabel_ledger [of s e w participant resp] assms(3) by simp
  with assms show ?thesis
    by (simp add: Verify_decide_def certificates_Create_def logged_def Let_def)
qed

text \<open>
  C1. Once the participant is found, liveness has passed and the recognition engine has
  answered, \<open>Verify\<close> returns a status, and that status is \<open>VALID\<close> exactly when
  \<open>matchLabel\<close> holds and either \<open>distanceOk\<close> holds, or it does not, no distance
  was returned and \<open>similarityOk\<close> holds; otherwise it is \<open>INVALID\<close>. The same status
  is on the one row added to the ledger. \<open>distanceOk\<close> holds only for a distance that is
  present and at most the distance threshold, \<open>similarityOk\<close> when the similarity is at
  least the similarity threshold. The store is assumed to answer: the lookup of the
  participant and the insert of the attempt do not fail, and the new attempt identifier
  is not yet in the ledger.
\<close>

theorem Verify_status_decision:
  fixes input :: VerifyInput
  defines "req \<equiv> \<lparr>rq_ImageName = (if vi_OriginalFilename input = [] then ''verification.jpg''
                                     else vi_OriginalFilename input),
                     rq_Image = vi_ImageBytes input\<rparr>"
  defines "status \<equiv> \<lambda>s resp matchLabel.
             if matchLabel \<and> (distanceOk s resp
                  \<or> (\<not> distanceOk s resp \<and> rr_Distance resp = None \<and> similarityOk s resp))
             then LifeCertificateStatusValid else LifeCertificateStatusInvalid"
  assumes "TrimSpace (vi_ParticipantID input) \<noteq> []"
    and "vi_ImageBytes input \<noteq> []"
    and "db_error e ParticipantGetByID = None"
    and "find (\<lambda>p. p_ID p = TrimSpace (vi_ParticipantID input)) (participants w)
         = Some participant"
    and "vs_livenessChecker s (vi_ImageBytes input) = (True, reason, None)"
    and "vs_Recognize s req = Inr resp"
    and "Verify_matchLabel s e
           (w\<lparr>calls := calls w @ [DbCall ParticipantGetByID,
                 EvaluateCall (vi_ImageBytes input), RecognizeCall req]\<rparr>) participant resp
         = (Inr matchLabel, w1)"
    and "db_error e LifeCertificateCreate = None"
    and "\<not> list_ex (\<lambda>r. lc_ID r = uuid1 e) (life_certificate w)"
  shows "fst (Verify s e w input)
         = Inr \<lparr>vo_ParticipantID = p_ID participant, vo_Status = status s resp matchLabel,
                vo_Distance = rr_Distance resp, vo_Similarity = Some (rr_Similarity resp),
                vo_VerifiedAt = now e\<rparr>
       \<and> life_certificate (snd (Verify s e w input))
         = life_certificate w @
             [\<lparr>lc_ID = uuid1 e, lc_ParticipantID = p_ID participant, lc_SelfiePath = [],
               lc_Status = status s resp matchLabel, lc_Distance = rr_Distance resp,
               lc_Similarity = Some (rr_Similarity resp), lc_VerifiedAt = now e,
               lc_Notes = None\<rparr>]
       \<and> (distanceOk s resp \<longleftrightarrow>
            (\<exists>d. rr_Distance resp = Some d \<and> f64_le d (distanceThreshold s)))
       \<and> (similarityOk s resp \<longleftrightarrow> f64_ge (rr_Similarity resp) (similarityThreshold s))"
proof -
  let ?w3 = "w\<lparr>calls := calls w @ [DbCall ParticipantGetByID,
                 EvaluateCall (vi_ImageBytes input), RecognizeCall req]\<rparr>"
  have "Verify s e w input = Verify_decide s e ?w3 participant resp"
    using assms(3-8) Verify_passed [of input e w participant s reason]
    by (simp add: req_def)
  moreover have "\<not> list_ex (\<lambda>r. lc_ID r = uuid1 e) (life_certificate ?w3)"
    using assms(11) by simp
  ultimately show ?thesis
    using Verify_decide_recorded [OF assms(10) _ assms(9)]
    by (simp add: status_def distanceOk_def similarityOk_def split: option.splits)
qed

text \<open>
  Scenario A: participant \<open>P1\<close> is bound to label \<open>L1\<close>, the engine answers
  \<open>L1\<close> with similarity 92.5 and distance 0.3, the thresholds are 0.6 and 75.
\<close>

theorem Verify_status_decision_witness:
  "fst (Verify (sample_service True (Inr \<lparr>rr_Label = ''L1'', rr_Similarity = Finite (925 / 10),
                                           rr_Distance = Some (Finite (3 / 10))\<rparr>))
          (sample_env 10 ''c-1'' ''c-2'') sample_world sample_input)
   = Inr \<lparr>vo_ParticipantID = ''P1'', vo_Status = LifeCertificateStatusValid,
          vo_Distance = Some (Finite (3 / 10)), vo_Similarity = Some (Finite (925 / 10)),
          vo_VerifiedAt = 10\<rparr>"
  using Verify_status_decision [where s = "sample_service True (Inr \<lparr>rr_Label = ''L1'',
            rr_Similarity = Finite (925 / 10), rr_Distance = Some (Finite (3 / 10))\<rparr>)"
      and e = "sample_env 10 ''c-1'' ''c-2''" and w = sample_world and input = sample_input
      and participant = sample_P1 and reason = "''ok''"
      and resp = "\<lparr>rr_Label = ''L1'', rr_Similarity = Finite (925 / 10),
                    rr_Distance = Some (Finite (3 / 10))\<rparr>"
      and matchLabel = True
      and ?w1.0 = "sample_world\<lparr>calls := [DbCall ParticipantGetByID, EvaluateCall ''jpeg'',
                      RecognizeCall sample_request, DbCall FRIdentityGetByLabel]\<rparr>"]
  by (simp add: sample_defs TrimSpace_samples Verify_matchLabel_def frIdentities_GetByLabel_def
     distanceOk_def similarityOk_def f64_ge_def logged_def Let_def)


text \<open>
  C3. When the liveness checker reports failure, \<open>Verify\<close> adds exactly one row to the
  ledger, with status \<open>REVIEW\<close> and the checker's reason as notes, and returns
  \<open>REVIEW\<close> with no distance and no similarity. The calls it makes are the lookup of
  the participant, the liveness evaluation and the insert of the row: the recognition
  engine is not called. The disabled \<open>NoopChecker\<close> is such a checker, with the reason
  \<open>liveness_disabled\<close>. The store is assumed to answer the lookup and the insert, and
  the new attempt identifier not to be in the ledger yet.
\<close>

theorem Verify_liveness_failure:
  assumes "TrimSpace (vi_ParticipantID input) \<noteq> []"
    and "vi_ImageBytes input \<noteq> []"
    and "db_error e ParticipantGetByID = None"
    and "find (\<lambda>p. p_ID p = TrimSpace (vi_ParticipantID input)) (participants w)
         = Some participant"
    and "vs_livenessChecker s (vi_ImageBytes input) = (False, reason, None)"
    and "db_error e LifeCertificateCreate = None"
    and "\<not> list_ex (\<lambda>r. lc_ID r = uuid1 e) (life_certificate w)"
  shows "Verify s e w input =
     (Inr \<lparr>vo_ParticipantID = p_ID participant, vo_Status = LifeCertificateStatusReview,
           vo_Distance = None, vo_Similarity = None, vo_VerifiedAt = now e\<rparr>,
      w\<lparr>life_certificate := life_certificate w @
           [\<lparr>lc_ID = uuid1 e, lc_ParticipantID = p_ID participant, lc_SelfiePath = [],
             lc_Status = LifeCertificateStatusReview, lc_Distance = None,
             lc_Similarity = None, lc_VerifiedAt = now e, lc_Notes = Some reason\<rparr>],
         calls := calls w @ [DbCall ParticipantGetByID, EvaluateCall (vi_ImageBytes input),
                             DbCall LifeCertificateCreate]\<rparr>)"
  using assms
  by (simp add: Verify_def Verify_review_def participants_GetByID_def
      certificates_Create_def logged_def Let_def)

text \<open>Scenario C: liveness is disabled.\<close>

theorem Verify_liveness_failure_witness:
  "NoopChecker_Evaluate False ''jpeg'' = (False, ''liveness_disabled'', None)
   \<and> Verify (sample_service False (Inl (External ''unreachable'')))
        (sample_env 10 ''c-1'' ''c-2'') sample_world sample_input =
     (Inr \<lparr>vo_ParticipantID = ''P1'', vo_Status = LifeCertificateStatusReview,
           vo_Distance = None, vo_Similarity = None, vo_VerifiedAt = 10\<rparr>,
      sample_world\<lparr>life_certificate :=
           [\<lparr>lc_ID = ''c-1'', lc_ParticipantID = ''P1'', lc_SelfiePath = [],
             lc_Status = LifeCertificateStatusReview, lc_Distance = None,
             lc_Similarity = None, lc_VerifiedAt = 10,
             lc_Notes = Some ''liveness_disabled''\<rparr>],
         calls := [DbCall ParticipantGetByID, EvaluateCall ''jpeg'',
                   DbCall LifeCertificateCreate]\<rparr>)"
  using Verify_liveness_failure [where s = "sample_service False (Inl (External ''unreachable''))"
      and e = "sample_env 10 ''c-1'' ''c-2''" and w = sample_world and input = sample_input
      and participant = sample_P1 and reason = "''liveness_disabled''"]
  by (simp add: sample_defs TrimSpace_samples)

text \<open>
  C10. When liveness has passed and the engine answers with a label that is empty or
  only white space, \<open>matchLabel\<close> stays false and the identity store is neither read nor
  written: the calls of \<open>Verify\<close> are the lookup of the participant, the liveness
  evaluation, the recognition request and the insert of the attempt. The status recorded
  and returned is \<open>INVALID\<close>, whatever the similarity and the distance are.
\<close>

theorem Verify_blank_label:
  fixes input :: VerifyInput
  defines "req \<equiv> \<lparr>rq_ImageName = (if vi_OriginalFilename input = [] then ''verification.jpg''
                                     else vi_OriginalFilename input),
                     rq_Image = vi_ImageBytes input\<rparr>"
  assumes "TrimSpace (vi_ParticipantID input) \<noteq> []"
    and "vi_ImageBytes input \<noteq> []"
    and "db_error e ParticipantGetByID = None"
    and "find (\<lambda>p. p_ID p = TrimSpace (vi_ParticipantID input)) (participants w)
         = Some participant"
    and "vs_livenessChecker s (vi_ImageBytes input) = (True, reason, None)"
    and "vs_Recognize s req = Inr resp"
    and "TrimSpace (rr_Label resp) = []"
    and "db_error e LifeCertificateCreate = None"
    and "\<not> list_ex (\<lambda>r. lc_ID r = uuid1 e) (life_certificate w)"
  shows "Verify_matchLabel s e w0 participant resp = (Inr False, w0)
       \<and> Verify s e w input =
     (Inr \<lparr>vo_ParticipantID = p_ID participant, vo_Status = LifeCertificateStatusInvalid,
           vo_Distance = rr_Distance resp, vo_Similarity = Some (rr_Similarity resp),
           vo_VerifiedAt = now e\<rparr>,
      w\<lparr>life_certificate := life_certificate w @
           [\<lparr>lc_ID = uuid1 e, lc_ParticipantID = p_ID participant, lc_SelfiePath = [],
             lc_Status = LifeCertificateStatusInvalid, lc_Distance = rr_Distance resp,
             lc_Similarity = Some (rr_Similarity resp), lc_VerifiedAt = now e,
             lc_Notes = None\<rparr>],
         calls := calls w @ [DbCall ParticipantGetByID, EvaluateCall (vi_ImageBytes input),
                             RecognizeCall req, DbCall LifeCertificateCreate]\<rparr>)"
proof -
  let ?w3 = "w\<lparr>calls := calls w @ [DbCall ParticipantGetByID,
                 EvaluateCall (vi_ImageBytes input), RecognizeCall req]\<rparr>"
  have m: "\<And>w0. Verify_matchLabel s e w0 participant resp = (Inr False, w0)"
    using assms(8) by (simp add: Verify_matchLabel_def)
  have "Verify s e w input = Verify_decide s e ?w3 participant resp"
    using assms(2-7) Verify_passed [of input e w participant s reason]
    by (simp add: req_def)
  moreover have "\<not> list_ex (\<lambda>r. lc_ID r = uuid1 e) (life_certificate ?w3)"
    using assms(10) by simp
  ultimately show ?thesis
    using Verify_decide_recorded [OF assms(9) _ m [of ?w3]] m [of w0]
    by simp
qed

text \<open>A label of a space, a tab and a no-break space, with the best of scores.\<close>

theorem Verify_blank_label_witness:
  "TrimSpace [CHR 0x20, CHR 0x09, CHR 0xC2, CHR 0xA0] = []
   \<and> Verify (sample_service True (Inr \<lparr>rr_Label = [CHR 0x20, CHR 0x09, CHR 0xC2, CHR 0xA0],
            rr_Similarity = Finite 99, rr_Distance = Some (Finite (1 / 10))\<rparr>))
        (sample_env 10 ''c-1'' ''c-2'') sample_world sample_input =
     (Inr \<lparr>vo_ParticipantID = ''P1'', vo_Status = LifeCertificateStatusInvalid,
           vo_Distance = Some (Finite (1 / 10)), vo_Similarity = Some (Finite 99),
           vo_VerifiedAt = 10\<rparr>,
      sample_world\<lparr>life_certificate :=
           [\<lparr>lc_ID = ''c-1'', lc_ParticipantID = ''P1'', lc_SelfiePath = [],
             lc_Status = LifeCertificateStatusInvalid, lc_Distance = Some (Finite (1 / 10)),
             lc_Similarity = Some (Finite 99), lc_VerifiedAt = 10, lc_Notes = None\<rparr>],
         calls := [DbCall ParticipantGetByID, EvaluateCall ''jpeg'',
                   RecognizeCall sample_request, DbCall LifeCertificateCreate]\<rparr>)"
  using Verify_blank_label [where s = "sample_service True (Inr \<lparr>rr_Label = [CHR 0x20, CHR 0x09, CHR 0xC2, CHR 0xA0],
            rr_Similarity = Finite 99, rr_Distance = Some (Finite (1 / 10))\<rparr>)"
      and e = "sample_env 10 ''c-1'' ''c-2''" and w = sample_world and input = sample_input
      and participant = sample_P1 and reason = "''ok''"
      and resp = "\<lparr>rr_Label = [CHR 0x20, CHR 0x09, CHR 0xC2, CHR 0xA0],
            rr_Similarity = Finite 99, rr_Distance = Some (Finite (1 / 10))\<rparr>"]
  by (simp add: sample_defs TrimSpace_samples)




lemma Verify_matchLabel_ledger_eq:
  "Verify_matchLabel s e w participant resp = (r, w1) \<Longrightarrow> life_certificate w1 = life_certificate w"
  using Verify_matchLabel_ledger [of s e w participant resp] by simp

lemma Verify_decide_success:
  assumes "Verify_decide s e w participant resp = (Inr out, w')"
  shows "\<exists>r. life_certificate w' = life_certificate w @ [r]
            \<and> lc_ParticipantID r = vo_ParticipantID out \<and> lc_Status r = vo_Status out
            \<and> lc_Distance r = vo_Distance out \<and> lc_Similarity r = vo_Similarity out
            \<and> lc_VerifiedAt r = vo_VerifiedAt out"
proof (cases "Verify_matchLabel s e w participant resp")
  case (Pair m w1)
  then have l: "life_certificate w1 = life_certificate w"
    by (rule Verify_matchLabel_ledger_eq)
  from assms Pair l show ?thesis
    by (auto simp: Verify_decide_def certificates_Create_def Let_def
        split: sum.splits option.splits if_splits)
qed

lemma Verify_review_success:
  assumes "Verify_review e w participant reason = (Inr out, w')"
  shows "\<exists>r. life_certificate w' = life_certificate w @ [r]
            \<and> lc_ParticipantID r = vo_ParticipantID out \<and> lc_Status r = vo_Status out
            \<and> lc_Distance r = vo_Distance out \<and> lc_Similarity r = vo_Similarity out
            \<and> lc_VerifiedAt r = vo_VerifiedAt out"
  using assms
  by (auto simp: Verify_review_def certificates_Create_def Let_def
        split: sum.splits option.splits if_splits)

lemma Verify_success_recorded:
  assumes "Verify s e w input = (Inr out, w')"
  shows "\<exists>r. life_certificate w' = life_certificate w @ [r]
            \<and> lc_ParticipantID r = vo_ParticipantID out \<and> lc_Status r = vo_Status out
            \<and> lc_Distance r = vo_Distance out \<and> lc_Similarity r = vo_Similarity out
            \<and> lc_VerifiedAt r = vo_VerifiedAt out"
  using assms
  by (auto simp: Verify_def participants_GetByID_def Let_def
        split: sum.splits option.splits if_splits prod.splits
        dest!: Verify_decide_success Verify_review_success)


text \<open>
  C5. When liveness has passed and the recognition client returns an error, \<open>Verify\<close>
  returns that error and the ledger is as it was: the world differs only by the three
  calls made. Every call of \<open>Verify\<close> that returns a status, whichever it is, has
  appended one row with that status, the same scores and the same time, so a failed
  dependency is told apart from a completed outcome by the ledger.
\<close>

theorem Verify_recognition_error:
  fixes input :: VerifyInput
  defines "req \<equiv> \<lparr>rq_ImageName = (if vi_OriginalFilename input = [] then ''verification.jpg''
                                     else vi_OriginalFilename input),
                     rq_Image = vi_ImageBytes input\<rparr>"
  assumes "TrimSpace (vi_ParticipantID input) \<noteq> []"
    and "vi_ImageBytes input \<noteq> []"
    and "db_error e ParticipantGetByID = None"
    and "find (\<lambda>p. p_ID p = TrimSpace (vi_ParticipantID input)) (participants w)
         = Some participant"
    and "vs_livenessChecker s (vi_ImageBytes input) = (True, reason, None)"
    and "vs_Recognize s req = Inl err"
  shows "Verify s e w input =
           (Inl err, w\<lparr>calls := calls w @ [DbCall ParticipantGetByID,
                          EvaluateCall (vi_ImageBytes input), RecognizeCall req]\<rparr>)
       \<and> (Verify s' e' w' input' = (Inr out, w'') \<longrightarrow>
            (\<exists>r. life_certificate w'' = life_certificate w' @ [r]
                  \<and> lc_ParticipantID r = vo_ParticipantID out
                  \<and> lc_Status r = vo_Status out
                  \<and> lc_Distance r = vo_Distance out
                  \<and> lc_Similarity r = vo_Similarity out
                  \<and> lc_VerifiedAt r = vo_VerifiedAt out))"
proof -
  have "Verify s e w input =
           (Inl err, w\<lparr>calls := calls w @ [DbCall ParticipantGetByID,
                          EvaluateCall (vi_ImageBytes input), RecognizeCall req]\<rparr>)"
    using assms(2-7) Verify_passed [of input e w participant s reason]
    by (simp add: req_def)
  then show ?thesis
    using Verify_success_recorded [of s' e' w' input' out w''] by blast
qed

text \<open>
  The engine refuses the connection; and, for the second part, the \<open>REVIEW\<close> outcome
  of scenario C with its row.
\<close>

theorem Verify_recognition_error_witness:
  "Verify (sample_service True (Inl (External ''connection refused'')))
        (sample_env 10 ''c-1'' ''c-2'') sample_world sample_input =
     (Inl (External ''connection refused''),
      sample_world\<lparr>calls := [DbCall ParticipantGetByID, EvaluateCall ''jpeg'',
                             RecognizeCall sample_request]\<rparr>)
   \<and> Verify (sample_service False (Inl (External ''unreachable'')))
        (sample_env 10 ''c-1'' ''c-2'') sample_world sample_input =
     (Inr \<lparr>vo_ParticipantID = ''P1'', vo_Status = LifeCertificateStatusReview,
           vo_Distance = None, vo_Similarity = None, vo_VerifiedAt = 10\<rparr>,
      sample_world\<lparr>life_certificate :=
           [\<lparr>lc_ID = ''c-1'', lc_ParticipantID = ''P1'', lc_SelfiePath = [],
             lc_Status = LifeCertificateStatusReview, lc_Distance = None,
             lc_Similarity = None, lc_VerifiedAt = 10,
             lc_Notes = Some ''liveness_disabled''\<rparr>],
         calls := [DbCall ParticipantGetByID, EvaluateCall ''jpeg'',
                   DbCall LifeCertificateCreate]\<rparr>)
   \<and> (\<exists>r. [\<lparr>lc_ID = ''c-1'', lc_ParticipantID = ''P1'', lc_SelfiePath = [],
             lc_Status = LifeCertificateStatusReview, lc_Distance = None,
             lc_Similarity = None, lc_VerifiedAt = 10,
             lc_Notes = Some ''liveness_disabled''\<rparr>] = life_certificate sample_world @ [r]
          \<and> lc_Status r = LifeCertificateStatusReview)"
proof -
  have v: "Verify (sample_service False (Inl (External ''unreachable'')))
        (sample_env 10 ''c-1'' ''c-2'') sample_world sample_input =
     (Inr \<lparr>vo_ParticipantID = ''P1'', vo_Status = LifeCertificateStatusReview,
           vo_Distance = None, vo_Similarity = None, vo_VerifiedAt = 10\<rparr>,
      sample_world\<lparr>life_certificate :=
           [\<lparr>lc_ID = ''c-1'', lc_ParticipantID = ''P1'', lc_SelfiePath = [],
             lc_Status = LifeCertificateStatusReview, lc_Distance = None,
             lc_Similarity = None, lc_VerifiedAt = 10,
             lc_Notes = Some ''liveness_disabled''\<rparr>],
         calls := [DbCall ParticipantGetByID, EvaluateCall ''jpeg'',
                   DbCall LifeCertificateCreate]\<rparr>)"
    by (simp add: sample_defs TrimSpace_samples Verify_def Verify_review_def
        participants_GetByID_def certificates_Create_def logged_def Let_def)
  show ?thesis
    using v Verify_recognition_error [where s = "sample_service True (Inl (External ''connection refused''))"
      and e = "sample_env 10 ''c-1'' ''c-2''" and w = sample_world and input = sample_input
      and participant = sample_P1 and reason = "''ok''" and err = "External ''connection refused''"
      and s' = "sample_service False (Inl (External ''unreachable''))"
      and e' = "sample_env 10 ''c-1'' ''c-2''" and w' = sample_world and input' = sample_input
      and out = "\<lparr>vo_ParticipantID = ''P1'', vo_Status = LifeCertificateStatusReview,
           vo_Distance = None, vo_Similarity = None, vo_VerifiedAt = 10\<rparr>"
      and w'' = "sample_world\<lparr>life_certificate :=
           [\<lparr>lc_ID = ''c-1'', lc_ParticipantID = ''P1'', lc_SelfiePath = [],
             lc_Status = LifeCertificateStatusReview, lc_Distance = None,
             lc_Similarity = None, lc_VerifiedAt = 10,
             lc_Notes = Some ''liveness_disabled''\<rparr>],
         calls := [DbCall ParticipantGetByID, EvaluateCall ''jpeg'',
                   DbCall LifeCertificateCreate]\<rparr>"]
    by (simp add: sample_defs TrimSpace_samples)
qed










lemma firstRow_None: "firstRow rs = None \<longleftrightarrow> rs = []"
  by (cases rs) (auto split: option.splits)

lemma firstRow_latest:
  "firstRow rs = Some r \<Longrightarrow>
     r \<in> set rs \<and> (\<forall>r' \<in> set rs. lc_VerifiedAt r' \<le> lc_VerifiedAt r)"
proof (induction rs arbitrary: r)
  case Nil
  then show ?case by simp
next
  case (Cons a rs)
  show ?case
  proof (cases "firstRow rs")
    case None
    with Cons.prems show ?thesis by (simp add: firstRow_None)
  next
    case (Some b)
    with Cons.IH have b: "b \<in> set rs" "\<forall>r' \<in> set rs. lc_VerifiedAt r' \<le> lc_VerifiedAt b"
      by auto
    show ?thesis
    proof (cases "sortsBefore a b")
      case True
      with Some Cons.prems have "r = a" by simp
      moreover from True have "lc_VerifiedAt b \<le> lc_VerifiedAt a"
        by (auto simp: sortsBefore_def)
      ultimately show ?thesis using b by fastforce
    next
      case False
      with Some Cons.prems have "r = b" by simp
      moreover from False have "lc_VerifiedAt a \<le> lc_VerifiedAt b"
        by (auto simp: sortsBefore_def)
      ultimately show ?thesis using b by auto
    qed
  qed
qed

text \<open>
  C7, as amended. \<open>LatestStatus\<close> trims the participant identifier. A blank one is
  rejected with the validation error \<open>participant_id is required\<close>, before any call to
  the store. Otherwise, with the store answering: if no participant has the trimmed
  identifier the result is \<open>ErrParticipantNotFound\<close>; if the participant exists and has
  no attempt, the result is an output with an empty status and nothing else set, and no
  error; if attempts exist, the output carries the status, distance, similarity and time
  of one of the participant's attempts whose time no other attempt of the participant
  exceeds.
\<close>

theorem LatestStatus_outcomes:
  fixes rawID :: string
  defines "participantID \<equiv> TrimSpace rawID"
  defines "attempts \<equiv> \<lambda>w. filter (\<lambda>r. lc_ParticipantID r = participantID) (life_certificate w)"
  assumes "db_error e ParticipantGetByID = None"
    and "db_error e LifeCertificateGetLatestByParticipant = None"
  shows "(participantID = [] \<longrightarrow>
            LatestStatus e w rawID = (Inl (Errorf ''participant_id is required''), w))
       \<and> (participantID \<noteq> []
            \<and> find (\<lambda>p. p_ID p = participantID) (participants w) = None \<longrightarrow>
            LatestStatus e w rawID
            = (Inl ErrParticipantNotFound, w\<lparr>calls := calls w @ [DbCall ParticipantGetByID]\<rparr>))
       \<and> (participantID \<noteq> []
            \<and> find (\<lambda>p. p_ID p = participantID) (participants w) \<noteq> None
            \<and> attempts w = [] \<longrightarrow>
            LatestStatus e w rawID
            = (Inr \<lparr>so_ParticipantID = participantID, so_Status = [], so_Distance = None,
                    so_Similarity = None, so_VerifiedAt = None, so_SelfiePath = []\<rparr>,
               w\<lparr>calls := calls w @ [DbCall ParticipantGetByID,
                                      DbCall LifeCertificateGetLatestByParticipant]\<rparr>))
       \<and> (participantID \<noteq> []
            \<and> find (\<lambda>p. p_ID p = participantID) (participants w) \<noteq> None
            \<and> attempts w \<noteq> [] \<longrightarrow>
            (\<exists>r \<in> set (attempts w).
               (\<forall>r' \<in> set (attempts w). lc_VerifiedAt r' \<le> lc_VerifiedAt r)
               \<and> LatestStatus e w rawID
                 = (Inr \<lparr>so_ParticipantID = participantID, so_Status = lc_Status r,
                         so_Distance = lc_Distance r, so_Similarity = lc_Similarity r,
                         so_VerifiedAt = Some (lc_VerifiedAt r),
                         so_SelfiePath = lc_SelfiePath r\<rparr>,
                    w\<lparr>calls := calls w @ [DbCall ParticipantGetByID,
                                           DbCall LifeCertificateGetLatestByParticipant]\<rparr>)))"
proof -
  have a: "participantID = [] \<Longrightarrow>
            LatestStatus e w rawID = (Inl (Errorf ''participant_id is required''), w)"
    by (simp add: LatestStatus_def participantID_def)
  have b: "participantID \<noteq> [] \<Longrightarrow> find (\<lambda>p. p_ID p = participantID) (participants w) = None \<Longrightarrow>
            LatestStatus e w rawID
            = (Inl ErrParticipantNotFound, w\<lparr>calls := calls w @ [DbCall ParticipantGetByID]\<rparr>)"
    using assms(3)
    by (simp add: LatestStatus_def participantID_def participants_GetByID_def logged_def Let_def)
  have c: "participantID \<noteq> [] \<Longrightarrow> find (\<lambda>p. p_ID p = participantID) (participants w) \<noteq> None \<Longrightarrow>
            LatestStatus e w rawID
            = (case firstRow (attempts w) of
                 None \<Rightarrow> Inr \<lparr>so_ParticipantID = participantID, so_Status = [], so_Distance = None,
                    so_Similarity = None, so_VerifiedAt = None, so_SelfiePath = []\<rparr>
               | Some r \<Rightarrow> Inr \<lparr>so_ParticipantID = participantID, so_Status = lc_Status r,
                         so_Distance = lc_Distance r, so_Similarity = lc_Similarity r,
                         so_VerifiedAt = Some (lc_VerifiedAt r),
                         so_SelfiePath = lc_SelfiePath r\<rparr>,
               w\<lparr>calls := calls w @ [DbCall ParticipantGetByID,
                                      DbCall LifeCertificateGetLatestByParticipant]\<rparr>)"
    using assms(3,4)
    by (auto simp: LatestStatus_def participantID_def attempts_def participants_GetByID_def
        certificates_GetLatestByParticipant_def logged_def Let_def split: option.splits)
  have d: "attempts w \<noteq> [] \<Longrightarrow> \<exists>r \<in> set (attempts w).
               (\<forall>r' \<in> set (attempts w). lc_VerifiedAt r' \<le> lc_VerifiedAt r)
               \<and> firstRow (attempts w) = Some r"
    using firstRow_latest [of "attempts w"] firstRow_None [of "attempts w"]
    by (cases "firstRow (attempts w)") auto
  show ?thesis
  proof (intro conjI impI)
    assume "participantID = []"
    then show "LatestStatus e w rawID = (Inl (Errorf ''participant_id is required''), w)"
      by (rule a)
  next
    assume "participantID \<noteq> [] \<and> find (\<lambda>p. p_ID p = participantID) (participants w) = None"
    then show "LatestStatus e w rawID
            = (Inl ErrParticipantNotFound, w\<lparr>calls := calls w @ [DbCall ParticipantGetByID]\<rparr>)"
      using b by simp
  next
    assume "participantID \<noteq> [] \<and> find (\<lambda>p. p_ID p = participantID) (participants w) \<noteq> None
            \<and> attempts w = []"
    then show "LatestStatus e w rawID
            = (Inr \<lparr>so_ParticipantID = participantID, so_Status = [], so_Distance = None,
                    so_Similarity = None, so_VerifiedAt = None, so_SelfiePath = []\<rparr>,
               w\<lparr>calls := calls w @ [DbCall ParticipantGetByID,
                                      DbCall LifeCertificateGetLatestByParticipant]\<rparr>)"
      using c by simp
  next
    assume h: "participantID \<noteq> [] \<and> find (\<lambda>p. p_ID p = participantID) (participants w) \<noteq> None
            \<and> attempts w \<noteq> []"
    then obtain r where "r \<in> set (attempts w)"
      "\<forall>r' \<in> set (attempts w). lc_VerifiedAt r' \<le> lc_VerifiedAt r"
      "firstRow (attempts w) = Some r"
      using d by blast
    then show "\<exists>r \<in> set (attempts w).
               (\<forall>r' \<in> set (attempts w). lc_VerifiedAt r' \<le> lc_VerifiedAt r)
               \<and> LatestStatus e w rawID
                 = (Inr \<lparr>so_ParticipantID = participantID, so_Status = lc_Status r,
                         so_Distance = lc_Distance r, so_Similarity = lc_Similarity r,
                         so_VerifiedAt = Some (lc_VerifiedAt r),
                         so_SelfiePath = lc_SelfiePath r\<rparr>,
                    w\<lparr>calls := calls w @ [DbCall ParticipantGetByID,
                                           DbCall LifeCertificateGetLatestByParticipant]\<rparr>)"
      using c h by (intro bexI [of _ r]) simp_all
  qed
qed


text \<open>
  A blank identifier; an unknown participant; \<open>P1\<close> before any attempt, named with
  spaces around; and \<open>P1\<close> after the attempts at times 10 and 20.
\<close>

theorem LatestStatus_outcomes_witness:
  "LatestStatus (sample_env 40 ''c-1'' ''c-2'') sample_history ''  ''
     = (Inl (Errorf ''participant_id is required''), sample_history)
   \<and> LatestStatus (sample_env 40 ''c-1'' ''c-2'') sample_history ''P7''
     = (Inl ErrParticipantNotFound, sample_history\<lparr>calls := [DbCall ParticipantGetByID]\<rparr>)
   \<and> LatestStatus (sample_env 40 ''c-1'' ''c-2'') sample_world '' P1 ''
     = (Inr \<lparr>so_ParticipantID = ''P1'', so_Status = [], so_Distance = None,
             so_Similarity = None, so_VerifiedAt = None, so_SelfiePath = []\<rparr>,
        sample_world\<lparr>calls := [DbCall ParticipantGetByID,
                                 DbCall LifeCertificateGetLatestByParticipant]\<rparr>)
   \<and> LatestStatus (sample_env 40 ''c-1'' ''c-2'') sample_history ''P1''
     = (Inr \<lparr>so_ParticipantID = ''P1'', so_Status = LifeCertificateStatusValid,
             so_Distance = Some (Finite (3 / 10)), so_Similarity = Some (Finite (925 / 10)),
             so_VerifiedAt = Some 20, so_SelfiePath = []\<rparr>,
        sample_history\<lparr>calls := [DbCall ParticipantGetByID,
                                   DbCall LifeCertificateGetLatestByParticipant]\<rparr>)"
  using LatestStatus_outcomes [where e = "sample_env 40 ''c-1'' ''c-2''" and w = sample_history
          and rawID = "''  ''"]
        LatestStatus_outcomes [where e = "sample_env 40 ''c-1'' ''c-2''" and w = sample_history
          and rawID = "''P7''"]
        LatestStatus_outcomes [where e = "sample_env 40 ''c-1'' ''c-2''" and w = sample_world
          and rawID = "'' P1 ''"]
        LatestStatus_outcomes [where e = "sample_env 40 ''c-1'' ''c-2''" and w = sample_history
          and rawID = "''P1''"]
  by (simp add: sample_defs TrimSpace_samples)

text \<open>
  No participant has the empty identifier, yet \<open>LatestStatus\<close> of it is the validation
  error and not \<open>ErrParticipantNotFound\<close>.
\<close>

theorem LatestStatus_outcomes_counterexample:
  "fst (participants_GetByID (sample_env 40 ''c-1'' ''c-2'') sample_world []) = Inr None
   \<and> fst (LatestStatus (sample_env 40 ''c-1'' ''c-2'') sample_world [])
     = Inl (Errorf ''participant_id is required'')
   \<and> fst (LatestStatus (sample_env 40 ''c-1'' ''c-2'') sample_world [])
     \<noteq> Inl ErrParticipantNotFound"
  by (simp add: sample_defs TrimSpace_samples LatestStatus_def participants_GetByID_def)


end
